theory Spec2Isabelle
  imports Main
begin

section \<open>The Lakeview data model used by \<open>dashboards.py\<close>\<close>

text \<open>
  \<open>dashboards.py\<close> imports its dataclasses from \<open>databricks.labs.lsql.lakeview\<close>.
  Each dataclass is a record holding the fields that \<open>dashboards.py\<close> reads or writes;
  a field is named \<open>Class_field\<close>. Python's \<open>str | None\<close> is \<open>string option\<close>, Python's
  unbounded \<open>int\<close> is \<open>int\<close>.
\<close>

record Field =
  Field_name :: string
  Field_expression :: string

record Query =
  Query_dataset_name :: string
  Query_fields :: "Field list"
  Query_disaggregated :: bool

text \<open>
  The guard \<open>isinstance(node, NamedQuery) and node.query\<close> of \<open>_replace_names\<close> shows that
  the query of a NamedQuery may be absent.
\<close>

record NamedQuery =
  NamedQuery_name :: string
  NamedQuery_query :: "Query option"

record CounterFieldEncoding =
  CounterFieldEncoding_field_name :: string
  CounterFieldEncoding_display_name :: string

record CounterEncodingMap =
  CounterEncodingMap_value :: CounterFieldEncoding

record ControlFieldEncoding =
  ControlFieldEncoding_field_name :: string
  ControlFieldEncoding_query_name :: string
  ControlFieldEncoding_display_name :: string

text \<open>
  Modelled from the spec: the widget spec classes of the \<open>lakeview\<close> module are not among
  the sources. \<open>CounterSpec\<close> is the class \<open>create_dashboard\<close> builds. \<open>OtherSpec\<close> stands
  for every other spec class: it carries what \<open>_replace_names\<close> can observe of it, namely
  the \<open>widgetType\<close> entry of its \<open>as_dict()\<close> (possibly absent) and the
  ControlFieldEncoding nodes nested in it.
\<close>

datatype WidgetSpec =
  CounterSpec CounterEncodingMap
| OtherSpec "string option" "ControlFieldEncoding list"

text \<open>
  Modelled from the spec: \<open>spec.as_dict().get("widgetType")\<close>. The spec calls it the
  widget's spec-declared type tag; a counter spec declares the tag \<open>counter\<close>.
\<close>

fun widgetType :: "WidgetSpec \<Rightarrow> string option" where
  "widgetType (CounterSpec _) = Some ''counter''"
| "widgetType (OtherSpec tag _) = tag"

record Widget =
  Widget_name :: string
  Widget_queries :: "NamedQuery list"
  Widget_spec :: "WidgetSpec option"

record Position =
  Position_x :: int
  Position_y :: int
  Position_width :: int
  Position_height :: int

record Layout =
  Layout_widget :: Widget
  Layout_position :: Position

record Dataset =
  Dataset_name :: string
  Dataset_display_name :: "string option"
  Dataset_query :: string

record Page =
  Page_name :: string
  Page_display_name :: "string option"
  Page_layout :: "Layout list"

record Dashboard =
  Dashboard_datasets :: "Dataset list"
  Dashboard_pages :: "Page list"


section \<open>The dashboard folder\<close>

text \<open>
  A folder on disk is its final path component (\<open>Path.name\<close>) and, when the directory
  exists, its immediate children: file name and text content, in the order in which the
  operating system enumerates them. \<open>None\<close> is a directory that does not exist;
  \<open>Path.glob\<close> yields nothing there. Entries are readable text files.
\<close>

record Folder =
  Folder_name :: string
  Folder_entries :: "(string \<times> string) list option"

text \<open>\<open>str.rfind\<close> for a single character: the last index, or \<open>None\<close> for Python's -1.\<close>

fun rfind :: "char \<Rightarrow> string \<Rightarrow> nat option" where
  "rfind c [] = None"
| "rfind c (x # xs) =
     (case rfind c xs of
        Some i \<Rightarrow> Some (Suc i)
      | None \<Rightarrow> if x = c then Some 0 else None)"

text \<open>
  \<open>PurePath.stem\<close>: the name up to its last dot, unless that dot is the first or the last
  character of the name.
\<close>

definition stem :: "string \<Rightarrow> string" where
  "stem name =
     (case rfind (CHR ''.'') name of
        None \<Rightarrow> name
      | Some i \<Rightarrow> if 0 < i \<and> i < length name - 1 then take i name else name)"

text \<open>The pattern \<open>*.sql\<close>: any name that ends in \<open>.sql\<close>.\<close>

definition matches_sql :: "string \<Rightarrow> bool" where
  "matches_sql name \<longleftrightarrow> 4 \<le> length name \<and> drop (length name - 4) name = ''.sql''"

definition glob_sql :: "Folder \<Rightarrow> (string \<times> string) list" where
  "glob_sql folder =
     (case Folder_entries folder of
        None \<Rightarrow> []
      | Some entries \<Rightarrow> filter (\<lambda>(name, content). matches_sql name) entries)"


section \<open>\<open>Dashboards.create_dashboard\<close>\<close>

text \<open>
  The loop over \<open>dashboard_folder.glob("*.sql")\<close>: each file appends one Dataset and one
  Layout. The function returns both lists.
\<close>

fun load_queries :: "(string \<times> string) list \<Rightarrow> Dataset list \<times> Layout list" where
  "load_queries [] = ([], [])"
| "load_queries ((query_path, raw_query) # rest) =
     (let dataset = \<lparr>Dataset_name = stem query_path,
                     Dataset_display_name = Some (stem query_path),
                     Dataset_query = raw_query\<rparr>;
          fields = [\<lparr>Field_name = ''count'', Field_expression = ''`count`''\<rparr>];
          query = \<lparr>Query_dataset_name = Dataset_name dataset, Query_fields = fields,
                   Query_disaggregated = True\<rparr>;
          named_query = \<lparr>NamedQuery_name = ''main_query'', NamedQuery_query = Some query\<rparr>;
          counter_field_encoding = \<lparr>CounterFieldEncoding_field_name = ''count'',
                                    CounterFieldEncoding_display_name = ''count''\<rparr>;
          counter_spec = CounterSpec \<lparr>CounterEncodingMap_value = counter_field_encoding\<rparr>;
          widget = \<lparr>Widget_name = Dataset_name dataset, Widget_queries = [named_query],
                    Widget_spec = Some counter_spec\<rparr>;
          position = \<lparr>Position_x = 0, Position_y = 0, Position_width = 1,
                      Position_height = 3\<rparr>;
          layout = \<lparr>Layout_widget = widget, Layout_position = position\<rparr>;
          (datasets, layouts) = load_queries rest
      in (dataset # datasets, layout # layouts))"

definition create_dashboard :: "Folder \<Rightarrow> Dashboard" where
  "create_dashboard dashboard_folder =
     (let (datasets, layouts) = load_queries (glob_sql dashboard_folder);
          page = \<lparr>Page_name = Folder_name dashboard_folder,
                  Page_display_name = Some (Folder_name dashboard_folder),
                  Page_layout = layouts\<rparr>
      in \<lparr>Dashboard_datasets = datasets, Dashboard_pages = [page]\<rparr>)"

text \<open>
  The Widget and the Position that one pass of the loop builds for a file of stem \<open>name\<close>.
\<close>

definition counter_widget :: "string \<Rightarrow> Widget" where
  "counter_widget name =
     \<lparr>Widget_name = name,
      Widget_queries =
        [\<lparr>NamedQuery_name = ''main_query'',
          NamedQuery_query =
            Some \<lparr>Query_dataset_name = name,
                  Query_fields = [\<lparr>Field_name = ''count'', Field_expression = ''`count`''\<rparr>],
                  Query_disaggregated = True\<rparr>\<rparr>],
      Widget_spec =
        Some (CounterSpec \<lparr>CounterEncodingMap_value =
                \<lparr>CounterFieldEncoding_field_name = ''count'',
                 CounterFieldEncoding_display_name = ''count''\<rparr>\<rparr>)\<rparr>"

definition default_position :: Position where
  "default_position = \<lparr>Position_x = 0, Position_y = 0, Position_width = 1, Position_height = 3\<rparr>"


section \<open>\<open>Dashboards._format_query\<close>\<close>

text \<open>
  \<open>sqlglot\<close> is an external library. \<open>sqlglot.parse\<close> is the parameter \<open>parse\<close>: it returns
  a list of statements, some of which may be \<open>None\<close>, or raises one of the library's
  exceptions. \<open>ParseError\<close> is the one \<open>_format_query\<close> catches; \<open>TokenError\<close> is raised by
  the tokenizer, on an unterminated string for instance, and is not a \<open>ParseError\<close>. The
  type of a parsed statement is a type parameter, and
  \<open>statement.sql(dialect="databricks", ...)\<close> is the parameter \<open>sql\<close>.
\<close>

datatype sqlglot_error = ParseError | TokenError

text \<open>\<open>sep.join(parts)\<close>\<close>

fun join :: "string \<Rightarrow> string list \<Rightarrow> string" where
  "join sep [] = []"
| "join sep [part] = part"
| "join sep (part # next_part # parts) = part @ sep @ join sep (next_part # parts)"

text \<open>The loop over \<open>parsed_query\<close>, which skips the statements that are \<open>None\<close>.\<close>

fun format_statements :: "('stmt \<Rightarrow> string) \<Rightarrow> 'stmt option list \<Rightarrow> string list" where
  "format_statements sql [] = []"
| "format_statements sql (None # parsed_query) = format_statements sql parsed_query"
| "format_statements sql (Some statement # parsed_query) =
     sql statement # format_statements sql parsed_query"

text \<open>
  \<open>_format_query\<close> returns the formatted text, or raises what \<open>except sqlglot.ParseError\<close>
  lets through: \<open>Inl\<close> is the exception raised.
\<close>

definition format_query ::
  "(string \<Rightarrow> sqlglot_error + 'stmt option list) \<Rightarrow> ('stmt \<Rightarrow> string) \<Rightarrow> string \<Rightarrow>
     sqlglot_error + string" where
  "format_query parse sql query =
     (case parse query of
        Inl ParseError \<Rightarrow> Inr query
      | Inl TokenError \<Rightarrow> Inl TokenError
      | Inr parsed_query \<Rightarrow> Inr (join '';\<newline>'' (format_statements sql parsed_query)))"


section \<open>\<open>Dashboards.deploy_dashboard\<close>\<close>

datatype error = ValueError string | AssertionError

text \<open>
  The two calls \<open>deploy_dashboard\<close> makes on the workspace client: \<open>lakeview.create\<close> with
  a display name and \<open>lakeview.update\<close> with a dashboard id, each with the serialized
  dashboard.
\<close>

datatype network_call = LakeviewCreate string string | LakeviewUpdate string string

text \<open>
  The workspace client is the parameter \<open>ws\<close>, the answer of the remote service to a call;
  \<open>json.dumps(lakeview_dashboard.as_dict())\<close> is the parameter \<open>serialize\<close>. The function
  returns its result, \<open>Inl\<close> for a raised exception, and the network calls it has made.
\<close>

definition deploy_dashboard ::
  "(network_call \<Rightarrow> 'sdk) \<Rightarrow> (Dashboard \<Rightarrow> string) \<Rightarrow> Dashboard \<Rightarrow>
     string option \<Rightarrow> string option \<Rightarrow> (error + 'sdk) \<times> network_call list" where
  "deploy_dashboard ws serialize lakeview_dashboard display_name dashboard_id =
     (if (display_name = None \<and> dashboard_id = None) \<or>
         (display_name \<noteq> None \<and> dashboard_id \<noteq> None)
      then (Inl (ValueError ''Give either display_name or dashboard_id.''), [])
      else
        (case display_name of
           Some name \<Rightarrow>
             (let call = LakeviewCreate name (serialize lakeview_dashboard)
              in (Inr (ws call), [call]))
         | None \<Rightarrow>
             (case dashboard_id of
                None \<Rightarrow> (Inl AssertionError, [])
              | Some ident \<Rightarrow>
                  (let call = LakeviewUpdate ident (serialize lakeview_dashboard)
                   in (Inr (ws call), [call])))))"


section \<open>\<open>Dashboards._with_better_names\<close> and \<open>Dashboards._replace_names\<close>\<close>

text \<open>
  \<open>better_names\<close> is a Python dict from names to names. \<open>_replace_names\<close> writes to it
  while it walks the dashboard, so every function takes the dict and returns it with the
  rewritten node.
\<close>

type_synonym better_names = "string \<rightharpoonup> string"

text \<open>\<open>better_names.get(name, name)\<close>\<close>

definition get_name :: "better_names \<Rightarrow> string \<Rightarrow> string" where
  "get_name better_names name = (case better_names name of None \<Rightarrow> name | Some better \<Rightarrow> better)"

text \<open>\<open>s.startswith(prefix)\<close>\<close>

definition startswith :: "string \<Rightarrow> string \<Rightarrow> bool" where
  "startswith s pre \<longleftrightarrow> take (length pre) s = pre"

text \<open>
  The list comprehension \<open>[self._replace_names(item, better_names) for item in value]\<close>:
  the items are rewritten from left to right, each with the dict its predecessors left.
\<close>

fun replace_names_list ::
  "('a \<Rightarrow> better_names \<Rightarrow> 'a \<times> better_names) \<Rightarrow> 'a list \<Rightarrow> better_names \<Rightarrow>
     'a list \<times> better_names" where
  "replace_names_list replace [] better_names = ([], better_names)"
| "replace_names_list replace (item # items) better_names =
     (let (item', better_names1) = replace item better_names;
          (items', better_names2) = replace_names_list replace items better_names1
      in (item' # items', better_names2))"

text \<open>
  \<open>_replace_names\<close> at each class of node. The generic walk over the dataclass fields comes
  first, in the order of the fields; the branch of the \<open>isinstance\<close> chain follows. The
  order of the fields is the order in which \<open>create_dashboard\<close> passes them: the datasets of
  a Dashboard before its pages, the queries of a Widget before its spec. Field and Position
  nodes, and the nodes of a counter spec, match no branch and hold no list or dataclass that
  does: they are returned as they are.
\<close>

definition replace_names_Dataset :: "Dataset \<Rightarrow> better_names \<Rightarrow> Dataset \<times> better_names" where
  "replace_names_Dataset node better_names =
     (node\<lparr>Dataset_name := get_name better_names (Dataset_name node)\<rparr>, better_names)"

definition replace_names_Query :: "Query \<Rightarrow> better_names \<Rightarrow> Query \<times> better_names" where
  "replace_names_Query node better_names =
     (node\<lparr>Query_dataset_name := get_name better_names (Query_dataset_name node)\<rparr>,
      better_names)"

definition replace_names_NamedQuery ::
  "NamedQuery \<Rightarrow> better_names \<Rightarrow> NamedQuery \<times> better_names" where
  "replace_names_NamedQuery node better_names =
     (case NamedQuery_query node of
        None \<Rightarrow> (node, better_names)
      | Some query \<Rightarrow>
          (let (query', better_names1) = replace_names_Query query better_names;
               node1 = node\<lparr>NamedQuery_query := Some query'\<rparr>
           in if startswith (NamedQuery_name node1) ''dashboards/''
              then
                (let parts = Query_dataset_name query' # map Field_name (Query_fields query');
                     new_name = join ''_'' parts;
                     better_names2 = better_names1(NamedQuery_name node1 \<mapsto> new_name)
                 in (node1\<lparr>NamedQuery_name := get_name better_names2 (NamedQuery_name node1)\<rparr>,
                     better_names2))
              else
                (node1\<lparr>NamedQuery_name := get_name better_names1 (NamedQuery_name node1)\<rparr>,
                 better_names1)))"

definition replace_names_ControlFieldEncoding ::
  "ControlFieldEncoding \<Rightarrow> better_names \<Rightarrow> ControlFieldEncoding \<times> better_names" where
  "replace_names_ControlFieldEncoding node better_names =
     (node\<lparr>ControlFieldEncoding_query_name :=
              get_name better_names (ControlFieldEncoding_query_name node)\<rparr>,
      better_names)"

fun replace_names_WidgetSpec :: "WidgetSpec \<Rightarrow> better_names \<Rightarrow> WidgetSpec \<times> better_names" where
  "replace_names_WidgetSpec (CounterSpec encodings) better_names =
     (CounterSpec encodings, better_names)"
| "replace_names_WidgetSpec (OtherSpec tag encodings) better_names =
     (let (encodings', better_names1) =
            replace_names_list replace_names_ControlFieldEncoding encodings better_names
      in (OtherSpec tag encodings', better_names1))"

definition replace_names_Widget :: "Widget \<Rightarrow> better_names \<Rightarrow> Widget \<times> better_names" where
  "replace_names_Widget node better_names =
     (let (queries', better_names1) =
            replace_names_list replace_names_NamedQuery (Widget_queries node) better_names;
          (spec', better_names2) =
            (case Widget_spec node of
               None \<Rightarrow> (None, better_names1)
             | Some spec \<Rightarrow>
                 (let (spec1, better_names') = replace_names_WidgetSpec spec better_names1
                  in (Some spec1, better_names')));
          node1 = node\<lparr>Widget_queries := queries', Widget_spec := spec'\<rparr>
      in (case spec' of
            None \<Rightarrow> node1
          | Some spec \<Rightarrow>
              node1\<lparr>Widget_name :=
                      (case widgetType spec of None \<Rightarrow> Widget_name node1 | Some tag \<Rightarrow> tag)\<rparr>,
          better_names2))"

definition replace_names_Layout :: "Layout \<Rightarrow> better_names \<Rightarrow> Layout \<times> better_names" where
  "replace_names_Layout node better_names =
     (let (widget', better_names1) = replace_names_Widget (Layout_widget node) better_names
      in (node\<lparr>Layout_widget := widget'\<rparr>, better_names1))"

definition replace_names_Page :: "Page \<Rightarrow> better_names \<Rightarrow> Page \<times> better_names" where
  "replace_names_Page node better_names =
     (let (layout', better_names1) =
            replace_names_list replace_names_Layout (Page_layout node) better_names;
          node1 = node\<lparr>Page_layout := layout'\<rparr>
      in (node1\<lparr>Page_name := get_name better_names1 (Page_name node1)\<rparr>, better_names1))"

definition replace_names_Dashboard ::
  "Dashboard \<Rightarrow> better_names \<Rightarrow> Dashboard \<times> better_names" where
  "replace_names_Dashboard node better_names =
     (let (datasets', better_names1) =
            replace_names_list replace_names_Dataset (Dashboard_datasets node) better_names;
          (pages', better_names2) =
            replace_names_list replace_names_Page (Dashboard_pages node) better_names1
      in (node\<lparr>Dashboard_datasets := datasets', Dashboard_pages := pages'\<rparr>, better_names2))"

text \<open>The two loops of \<open>_with_better_names\<close> that fill the dict from the display names.\<close>

fun dataset_names :: "Dataset list \<Rightarrow> better_names \<Rightarrow> better_names" where
  "dataset_names [] better_names = better_names"
| "dataset_names (dataset # datasets) better_names =
     dataset_names datasets
       (case Dataset_display_name dataset of
          None \<Rightarrow> better_names
        | Some display_name \<Rightarrow> better_names(Dataset_name dataset \<mapsto> display_name))"

fun page_names :: "Page list \<Rightarrow> better_names \<Rightarrow> better_names" where
  "page_names [] better_names = better_names"
| "page_names (page # pages) better_names =
     page_names pages
       (case Page_display_name page of
          None \<Rightarrow> better_names
        | Some display_name \<Rightarrow> better_names(Page_name page \<mapsto> display_name))"

definition with_better_names :: "Dashboard \<Rightarrow> Dashboard" where
  "with_better_names dashboard =
     (let better_names = dataset_names (Dashboard_datasets dashboard) Map.empty;
          better_names = page_names (Dashboard_pages dashboard) better_names
      in fst (replace_names_Dashboard dashboard better_names))"


section \<open>\<open>Dashboards.get_dashboard\<close>\<close>



section \<open>The remote service\<close>














section \<open>Notions of the specification\<close>

text \<open>
  The grid of the specification is six columns wide. Two positions overlap when their
  rectangles share a cell.
\<close>

definition grid_width :: int where
  "grid_width = 6"

definition overlaps :: "Position \<Rightarrow> Position \<Rightarrow> bool" where
  "overlaps p q \<longleftrightarrow>
     Position_x p < Position_x q + Position_width q \<and>
     Position_x q < Position_x p + Position_width p \<and>
     Position_y p < Position_y q + Position_height q \<and>
     Position_y q < Position_y p + Position_height p"

fun no_overlap :: "Position list \<Rightarrow> bool" where
  "no_overlap [] = True"
| "no_overlap (p # ps) = ((\<forall>q \<in> set ps. \<not> overlaps p q) \<and> no_overlap ps)"

definition page_positions :: "Page \<Rightarrow> Position list" where
  "page_positions page = map Layout_position (Page_layout page)"

text \<open>
  The packing invariant of the specification: on every page no two tiles overlap, and every
  tile ends within the grid.
\<close>

definition packing_invariant :: "Dashboard \<Rightarrow> bool" where
  "packing_invariant dashboard \<longleftrightarrow>
     (\<forall>page \<in> set (Dashboard_pages dashboard).
        no_overlap (page_positions page) \<and>
        (\<forall>p \<in> set (page_positions page). Position_x p + Position_width p \<le> grid_width))"

text \<open>The tiles of a dashboard, by widget name, in the order of the page layouts.\<close>

definition tile_order :: "Dashboard \<Rightarrow> string list" where
  "tile_order dashboard =
     concat (map (\<lambda>page. map (\<lambda>l. Widget_name (Layout_widget l)) (Page_layout page))
                 (Dashboard_pages dashboard))"

text \<open>The names of the fields a widget's queries select.\<close>

definition widget_field_names :: "Widget \<Rightarrow> string list" where
  "widget_field_names widget =
     concat (map (\<lambda>nq. case NamedQuery_query nq of
                          None \<Rightarrow> []
                        | Some q \<Rightarrow> map Field_name (Query_fields q))
                 (Widget_queries widget))"

text \<open>
  A name in the pattern of the remote service, as \<open>_replace_names\<close> tests it.
\<close>

definition generated :: "string \<Rightarrow> bool" where
  "generated name \<longleftrightarrow> startswith name ''dashboards/''"

text \<open>
  A dashboard is plain when no display name of a Dataset or a Page, and no name of a Page,
  starts with \<open>dashboards/\<close>.
\<close>

definition plain_Dataset :: "Dataset \<Rightarrow> bool" where
  "plain_Dataset dataset \<longleftrightarrow>
     (case Dataset_display_name dataset of None \<Rightarrow> True | Some name \<Rightarrow> \<not> generated name)"

definition plain_Page :: "Page \<Rightarrow> bool" where
  "plain_Page page \<longleftrightarrow>
     \<not> generated (Page_name page) \<and>
     (case Page_display_name page of None \<Rightarrow> True | Some name \<Rightarrow> \<not> generated name)"

definition plain_Dashboard :: "Dashboard \<Rightarrow> bool" where
  "plain_Dashboard dashboard \<longleftrightarrow>
     list_all plain_Dataset (Dashboard_datasets dashboard) \<and>
     list_all plain_Page (Dashboard_pages dashboard)"


section \<open>Notions of the proofs\<close>

text \<open>
  A node is stable when a pass with a dict that maps every key to itself leaves it as it
  is: a NamedQuery with a query has a name outside the pattern of the remote service, or
  the very name that \<open>_replace_names\<close> makes of its query, and a Widget whose spec declares a
  type tag is named by that tag.
\<close>

definition stable_NamedQuery :: "NamedQuery \<Rightarrow> bool" where
  "stable_NamedQuery named_query \<longleftrightarrow>
     (case NamedQuery_query named_query of
        None \<Rightarrow> True
      | Some query \<Rightarrow>
          \<not> generated (NamedQuery_name named_query) \<or>
          NamedQuery_name named_query =
            join ''_'' (Query_dataset_name query # map Field_name (Query_fields query)))"

definition stable_Widget :: "Widget \<Rightarrow> bool" where
  "stable_Widget widget \<longleftrightarrow>
     list_all stable_NamedQuery (Widget_queries widget) \<and>
     (case Widget_spec widget of
        None \<Rightarrow> True
      | Some spec \<Rightarrow>
          (case widgetType spec of None \<Rightarrow> True | Some tag \<Rightarrow> Widget_name widget = tag))"

definition stable_Page :: "Page \<Rightarrow> bool" where
  "stable_Page page \<longleftrightarrow>
     list_all (\<lambda>layout. stable_Widget (Layout_widget layout)) (Page_layout page)"

definition identity_on_keys :: "better_names \<Rightarrow> bool" where
  "identity_on_keys better_names \<longleftrightarrow> (\<forall>k v. better_names k = Some v \<longrightarrow> v = k)"

text \<open>
  A dict is clean when it maps no name outside the pattern to a name inside it. Two dicts
  agree when they are equal on the names outside the pattern.
\<close>

definition clean :: "better_names \<Rightarrow> bool" where
  "clean better_names \<longleftrightarrow>
     (\<forall>k v. \<not> generated k \<and> better_names k = Some v \<longrightarrow> \<not> generated v)"

definition agree :: "better_names \<Rightarrow> better_names \<Rightarrow> bool" where
  "agree m0 m \<longleftrightarrow> (\<forall>k. \<not> generated k \<longrightarrow> m k = m0 k)"

text \<open>
  The names and display names of the datasets and pages of a dashboard, in the order in
  which \<open>_with_better_names\<close> reads them, and the dict they fill. \<open>shown_names\<close> are the
  names that come with a display name. A renaming \<open>f\<close> of the names is settled when every
  name with a display name is renamed to that display name, or to the new name of a later
  entry with a display name.
\<close>

fun fill_names :: "(string \<times> string option) list \<Rightarrow> better_names \<Rightarrow> better_names" where
  "fill_names [] better_names = better_names"
| "fill_names ((name, None) # entries) better_names = fill_names entries better_names"
| "fill_names ((name, Some display_name) # entries) better_names =
     fill_names entries (better_names(name \<mapsto> display_name))"

definition shown_names :: "(string \<times> string option) list \<Rightarrow> string set" where
  "shown_names entries = {name. \<exists>display_name. (name, Some display_name) \<in> set entries}"

fun settled :: "(string \<Rightarrow> string) \<Rightarrow> (string \<times> string option) list \<Rightarrow> bool" where
  "settled f [] = True"
| "settled f ((name, None) # entries) = settled f entries"
| "settled f ((name, Some display_name) # entries) =
     ((f name = display_name \<or> f name \<in> f ` shown_names entries) \<and> settled f entries)"




section \<open>Concrete inputs\<close>

text \<open>Folders on which the theorems below are evaluated; several are those of the tests.\<close>

definition one_counter_folder :: Folder where
  "one_counter_folder =
     \<lparr>Folder_name = ''counter'',
      Folder_entries = Some [(''counter.sql'', ''SELECT 10 AS count'')]\<rparr>"

definition two_counters_folder :: Folder where
  "two_counters_folder =
     \<lparr>Folder_name = ''counters'',
      Folder_entries = Some [(''counter_0.sql'', ''SELECT 0 AS count''),
                             (''counter_1.sql'', ''SELECT 1 AS count'')]\<rparr>"

definition big_widget_folder :: Folder where
  "big_widget_folder =
     \<lparr>Folder_name = ''big'',
      Folder_entries = Some [(''q.sql'', ''-- --width 6 --height 3\<newline>SELECT 1'')]\<rparr>"

definition order_folder :: Folder where
  "order_folder =
     \<lparr>Folder_name = ''ordered'',
      Folder_entries = Some [(''0.sql'', ''SELECT 0 AS count''),
                             (''1.sql'', ''SELECT 1 AS count''),
                             (''2.sql'', ''SELECT 2 AS count''),
                             (''3.sql'', ''SELECT 3 AS count''),
                             (''4.sql'', ''-- --order 1\<newline>SELECT 4 AS count''),
                             (''5.sql'', ''SELECT 5 AS count'')]\<rparr>"

definition missing_folder :: Folder where
  "missing_folder = \<lparr>Folder_name = ''missing'', Folder_entries = None\<rparr>"

definition no_sql_folder :: Folder where
  "no_sql_folder =
     \<lparr>Folder_name = ''notes'',
      Folder_entries = Some [(''readme.txt'', ''nothing to see''), (''sql'', ''SELECT 1'')]\<rparr>"

definition counter_variation_folder :: Folder where
  "counter_variation_folder =
     \<lparr>Folder_name = ''variation'',
      Folder_entries = Some [(''counter.sql'', ''SELECT 10 AS `Something Else Than Count`'')]\<rparr>"

text \<open>
  A parser that answers two texts as \<open>sqlglot\<close> does, the unparsable query of the tests with
  \<open>ParseError\<close> and a query with an unterminated string with \<open>TokenError\<close>, and takes any
  other text for one statement.
\<close>

definition unterminated_string_query :: string where
  "unterminated_string_query = ''SELECT '' @ [CHR 0x27] @ ''abc''"

definition strict_parser :: "string \<Rightarrow> sqlglot_error + string option list" where
  "strict_parser query =
     (if query = ''SELECT COUNT(* AS invalid_column'' then Inl ParseError
      else if query = unterminated_string_query then Inl TokenError
      else Inr [Some query])"

text \<open>
  A NamedQuery as the remote service names it, and a NamedQuery that has no query.
\<close>

definition remote_named_query :: NamedQuery where
  "remote_named_query =
     \<lparr>NamedQuery_name = ''dashboards/01eeb077e38c17e6/datasets/01eeb081882017f6_x'',
      NamedQuery_query =
        Some \<lparr>Query_dataset_name = ''counter'',
              Query_fields = [\<lparr>Field_name = ''count'', Field_expression = ''`count`''\<rparr>],
              Query_disaggregated = True\<rparr>\<rparr>"

definition bare_named_query :: NamedQuery where
  "bare_named_query = \<lparr>NamedQuery_name = ''q'', NamedQuery_query = None\<rparr>"

text \<open>
  A dashboard as the remote service exports it, and a dashboard whose dataset has a
  display name in the pattern of the remote service.
\<close>

definition exported_dashboard :: Dashboard where
  "exported_dashboard =
     \<lparr>Dashboard_datasets =
        [\<lparr>Dataset_name = ''01eeb081'', Dataset_display_name = Some ''counter'',
          Dataset_query = ''SELECT 10 AS count''\<rparr>],
      Dashboard_pages =
        [\<lparr>Page_name = ''a1b2c3'', Page_display_name = Some ''Counters'',
          Page_layout =
            [\<lparr>Layout_widget =
                \<lparr>Widget_name = ''f00d'',
                 Widget_queries =
                   [\<lparr>NamedQuery_name = ''dashboards/01eeb077/datasets/01eeb081_count'',
                     NamedQuery_query =
                       Some \<lparr>Query_dataset_name = ''01eeb081'',
                             Query_fields =
                               [\<lparr>Field_name = ''count'', Field_expression = ''`count`''\<rparr>],
                             Query_disaggregated = True\<rparr>\<rparr>],
                 Widget_spec =
                   Some (OtherSpec (Some ''filter-single-select'')
                     [\<lparr>ControlFieldEncoding_field_name = ''count'',
                       ControlFieldEncoding_query_name =
                         ''dashboards/01eeb077/datasets/01eeb081_count'',
                       ControlFieldEncoding_display_name = ''count''\<rparr>])\<rparr>,
               Layout_position = default_position\<rparr>]\<rparr>]\<rparr>"

definition generated_display_name_dashboard :: Dashboard where
  "generated_display_name_dashboard =
     \<lparr>Dashboard_datasets =
        [\<lparr>Dataset_name = ''q'', Dataset_display_name = Some ''dashboards/q'',
          Dataset_query = ''SELECT 1 AS count''\<rparr>],
      Dashboard_pages =
        [\<lparr>Page_name = ''p'', Page_display_name = None,
          Page_layout =
            [\<lparr>Layout_widget =
                \<lparr>Widget_name = ''w'',
                 Widget_queries =
                   [\<lparr>NamedQuery_name = ''q'',
                     NamedQuery_query =
                       Some \<lparr>Query_dataset_name = ''q'',
                             Query_fields =
                               [\<lparr>Field_name = ''count'', Field_expression = ''`count`''\<rparr>],
                             Query_disaggregated = True\<rparr>\<rparr>],
                 Widget_spec = None\<rparr>,
               Layout_position = default_position\<rparr>]\<rparr>]\<rparr>"







section \<open>Properties of \<open>create_dashboard\<close>\<close>

subsection \<open>What the loop builds\<close>

lemma load_queries_datasets:
  "fst (load_queries files) =
     map (\<lambda>(p, raw). \<lparr>Dataset_name = stem p, Dataset_display_name = Some (stem p),
                        Dataset_query = raw\<rparr>) files"
  by (induction files) (auto simp: Let_def split: prod.splits)

lemma load_queries_layouts:
  "snd (load_queries files) =
     map (\<lambda>(p, raw). \<lparr>Layout_widget = counter_widget (stem p),
                        Layout_position = default_position\<rparr>) files"
  by (induction files) (auto simp: Let_def counter_widget_def default_position_def split: prod.splits)

lemma create_dashboard_eq:
  "create_dashboard f =
     \<lparr>Dashboard_datasets = fst (load_queries (glob_sql f)),
      Dashboard_pages =
        [\<lparr>Page_name = Folder_name f, Page_display_name = Some (Folder_name f),
          Page_layout = snd (load_queries (glob_sql f))\<rparr>]\<rparr>"
  by (simp add: create_dashboard_def Let_def split: prod.splits)

lemma positions_create:
  "page_positions \<lparr>Page_name = n, Page_display_name = d,
       Page_layout = snd (load_queries files)\<rparr> = replicate (length files) default_position"
  by (simp add: page_positions_def load_queries_layouts map_replicate_const[symmetric] split_beta comp_def)

lemma no_overlap_replicate: "no_overlap (replicate n default_position) \<longleftrightarrow> n \<le> 1"
proof (cases n)
  case 0
  then show ?thesis by simp
next
  case (Suc k)
  have "overlaps default_position default_position"
    by (simp add: overlaps_def default_position_def)
  then show ?thesis
    using Suc by (cases k) auto
qed

lemma glob_one: "glob_sql one_counter_folder = [(''counter.sql'', ''SELECT 10 AS count'')]"
  by (simp add: glob_sql_def one_counter_folder_def matches_sql_def)

lemma glob_two:
  "glob_sql two_counters_folder =
     [(''counter_0.sql'', ''SELECT 0 AS count''), (''counter_1.sql'', ''SELECT 1 AS count'')]"
  by (simp add: glob_sql_def two_counters_folder_def matches_sql_def)

lemma glob_big:
  "glob_sql big_widget_folder = [(''q.sql'', ''-- --width 6 --height 3\<newline>SELECT 1'')]"
  by (simp add: glob_sql_def big_widget_folder_def matches_sql_def)

lemma glob_order:
  "glob_sql order_folder =
     [(''0.sql'', ''SELECT 0 AS count''), (''1.sql'', ''SELECT 1 AS count''),
      (''2.sql'', ''SELECT 2 AS count''), (''3.sql'', ''SELECT 3 AS count''),
      (''4.sql'', ''-- --order 1\<newline>SELECT 4 AS count''), (''5.sql'', ''SELECT 5 AS count'')]"
  by (simp add: glob_sql_def order_folder_def matches_sql_def)

lemma glob_variation:
  "glob_sql counter_variation_folder =
     [(''counter.sql'', ''SELECT 10 AS `Something Else Than Count`'')]"
  by (simp add: glob_sql_def counter_variation_folder_def matches_sql_def)

subsection \<open>Positions\<close>

text \<open>
  Claim C1, as amended. Every tile of a dashboard built from a folder gets the position
  \<open>x = 0, y = 0, width = 1, height = 3\<close>, so every position satisfies
  \<open>x + width \<le> 6\<close>. All tiles share that one position: the packing invariant (no two
  tiles of a page overlap, every tile within the grid) holds if and only if the folder has
  at most one SQL file.
\<close>

theorem create_dashboard_positions:
  "(\<forall>page \<in> set (Dashboard_pages (create_dashboard f)).
      \<forall>p \<in> set (page_positions page).
        p = \<lparr>Position_x = 0, Position_y = 0, Position_width = 1, Position_height = 3\<rparr> \<and>
        Position_x p + Position_width p \<le> grid_width) \<and>
   (packing_invariant (create_dashboard f) \<longleftrightarrow> length (glob_sql f) \<le> 1)"
proof -
  have pages: "Dashboard_pages (create_dashboard f) =
      [\<lparr>Page_name = Folder_name f, Page_display_name = Some (Folder_name f),
        Page_layout = snd (load_queries (glob_sql f))\<rparr>]"
    by (simp add: create_dashboard_eq)
  have positions: "\<And>p. p \<in> set (replicate (length (glob_sql f)) default_position) \<Longrightarrow>
      p = \<lparr>Position_x = 0, Position_y = 0, Position_width = 1, Position_height = 3\<rparr> \<and>
      Position_x p + Position_width p \<le> grid_width"
    by (simp add: default_position_def grid_width_def)
  then have "packing_invariant (create_dashboard f) \<longleftrightarrow>
      no_overlap (replicate (length (glob_sql f)) default_position)"
    by (auto simp: packing_invariant_def pages positions_create)
  with positions show ?thesis
    by (simp add: pages positions_create no_overlap_replicate)
qed

theorem create_dashboard_positions_witness:
  "length (glob_sql one_counter_folder) \<le> 1 \<and>
   packing_invariant (create_dashboard one_counter_folder) \<and>
   concat (map page_positions (Dashboard_pages (create_dashboard one_counter_folder))) =
     [\<lparr>Position_x = 0, Position_y = 0, Position_width = 1, Position_height = 3\<rparr>]"
proof -
  have short: "length (glob_sql one_counter_folder) \<le> 1"
    by (simp add: glob_one)
  have "packing_invariant (create_dashboard one_counter_folder)"
    using create_dashboard_positions [of one_counter_folder] short by blast
  moreover have "concat (map page_positions (Dashboard_pages (create_dashboard one_counter_folder))) =
     [\<lparr>Position_x = 0, Position_y = 0, Position_width = 1, Position_height = 3\<rparr>]"
    by (simp add: create_dashboard_eq page_positions_def glob_one)
  ultimately show ?thesis using short by blast
qed

text \<open>
  The claim as stated fails: a folder with two SQL files yields two tiles on the same cells.
\<close>

theorem create_dashboard_overlap_counterexample:
  "\<not> packing_invariant (create_dashboard two_counters_folder)"
  by (simp add: create_dashboard_eq packing_invariant_def page_positions_def glob_two
                overlaps_def)

subsection \<open>Directive comments\<close>

text \<open>
  Claim C6, as amended. \<open>create_dashboard\<close> does not read directive comments: whatever the
  first line of a SQL file is, the query of its Dataset is the whole text of the file, and
  its tile has width 1 and height 3.
\<close>

theorem create_dashboard_keeps_raw_query:
  "map Dataset_query (Dashboard_datasets (create_dashboard f)) = map snd (glob_sql f) \<and>
   concat (map page_positions (Dashboard_pages (create_dashboard f))) =
     replicate (length (glob_sql f))
       \<lparr>Position_x = 0, Position_y = 0, Position_width = 1, Position_height = 3\<rparr>"
  by (simp add: create_dashboard_eq load_queries_datasets positions_create default_position_def
                split_beta)

text \<open>
  The claim as stated fails on \<open>-- --width 6 --height 3\<close> followed by \<open>SELECT 1\<close>: the
  query body is not \<open>SELECT 1\<close> and the width is 1, not 6.
\<close>

theorem create_dashboard_directive_counterexample:
  "map Dataset_query (Dashboard_datasets (create_dashboard big_widget_folder)) \<noteq> [''SELECT 1''] \<and>
   map Position_width
     (concat (map page_positions (Dashboard_pages (create_dashboard big_widget_folder)))) = [1]"
  by (simp add: create_dashboard_eq page_positions_def glob_big)

subsection \<open>Order of the tiles\<close>

text \<open>
  Claim C7, as amended. \<open>create_dashboard\<close> does not sort: the tiles of the page are in
  the order in which the folder enumerates its SQL files, each tile named after the stem of
  its file.
\<close>

theorem create_dashboard_keeps_discovery_order:
  "tile_order (create_dashboard f) = map (\<lambda>(name, content). stem name) (glob_sql f)"
  by (simp add: create_dashboard_eq tile_order_def load_queries_layouts counter_widget_def
                split_beta comp_def)

text \<open>
  The claim as stated fails on the six files \<open>0.sql\<close> to \<open>5.sql\<close> where \<open>4.sql\<close> starts with
  \<open>-- --order 1\<close>: tile 4 stays at its place of discovery, after tile 3, and is not placed
  between the tiles 1 and 2.
\<close>

theorem create_dashboard_order_counterexample:
  "tile_order (create_dashboard order_folder) = [''0'', ''1'', ''2'', ''3'', ''4'', ''5''] \<and>
   tile_order (create_dashboard order_folder) \<noteq> [''0'', ''1'', ''4'', ''2'', ''3'', ''5'']"
  by (simp add: create_dashboard_eq tile_order_def glob_order stem_def)

subsection \<open>Folders without queries\<close>

text \<open>
  Claim C8, as amended. \<open>create_dashboard\<close> does not fail on a folder that yields no SQL
  file, be it a directory that does not exist or one without a \<open>*.sql\<close> child: it returns
  a Dashboard with no Dataset and one Page, named after the folder, with an empty layout.
\<close>

theorem create_dashboard_without_queries:
  "glob_sql f = [] \<Longrightarrow>
   create_dashboard f =
     \<lparr>Dashboard_datasets = [],
      Dashboard_pages = [\<lparr>Page_name = Folder_name f, Page_display_name = Some (Folder_name f),
                          Page_layout = []\<rparr>]\<rparr>"
  by (simp add: create_dashboard_eq)

theorem create_dashboard_without_queries_witness:
  "glob_sql no_sql_folder = [] \<and>
   create_dashboard no_sql_folder =
     \<lparr>Dashboard_datasets = [],
      Dashboard_pages = [\<lparr>Page_name = ''notes'', Page_display_name = Some ''notes'',
                          Page_layout = []\<rparr>]\<rparr>"
proof -
  have empty: "glob_sql no_sql_folder = []"
    by (simp add: glob_sql_def no_sql_folder_def matches_sql_def)
  from create_dashboard_without_queries [OF empty] empty show ?thesis
    by (simp add: no_sql_folder_def)
qed

text \<open>
  The claim as stated fails on a directory that does not exist: a Dashboard is returned.
\<close>

theorem create_dashboard_missing_folder_counterexample:
  "create_dashboard missing_folder =
     \<lparr>Dashboard_datasets = [],
      Dashboard_pages = [\<lparr>Page_name = ''missing'', Page_display_name = Some ''missing'',
                          Page_layout = []\<rparr>]\<rparr>"
  by (simp add: create_dashboard_eq glob_sql_def missing_folder_def)

subsection \<open>Datasets and widgets\<close>

text \<open>
  Claim C9, as amended. For every SQL file of the folder, in order, \<open>create_dashboard\<close>
  builds one Dataset whose name and display name are the stem of the file and whose query is
  the text of the file, and one counter Widget, named after the stem, with the single query
  \<open>main_query\<close> on that dataset. The single field of that query, and the field of the
  counter encoding, is always named \<open>count\<close>, whatever columns the SQL text selects.
\<close>

theorem create_dashboard_tiles:
  "Dashboard_datasets (create_dashboard f) =
     map (\<lambda>(name, content).
            \<lparr>Dataset_name = stem name, Dataset_display_name = Some (stem name),
             Dataset_query = content\<rparr>) (glob_sql f) \<and>
   concat (map Page_layout (Dashboard_pages (create_dashboard f))) =
     map (\<lambda>(name, content).
            \<lparr>Layout_widget =
               \<lparr>Widget_name = stem name,
                Widget_queries =
                  [\<lparr>NamedQuery_name = ''main_query'',
                    NamedQuery_query =
                      Some \<lparr>Query_dataset_name = stem name,
                            Query_fields =
                              [\<lparr>Field_name = ''count'', Field_expression = ''`count`''\<rparr>],
                            Query_disaggregated = True\<rparr>\<rparr>],
                Widget_spec =
                  Some (CounterSpec \<lparr>CounterEncodingMap_value =
                          \<lparr>CounterFieldEncoding_field_name = ''count'',
                           CounterFieldEncoding_display_name = ''count''\<rparr>\<rparr>)\<rparr>,
             Layout_position =
               \<lparr>Position_x = 0, Position_y = 0, Position_width = 1, Position_height = 3\<rparr>\<rparr>)
         (glob_sql f)"
  by (simp add: create_dashboard_eq load_queries_datasets load_queries_layouts counter_widget_def
                default_position_def)

text \<open>
  The claim as stated fails on the query \<open>SELECT 10 AS `Something Else Than Count`\<close> of the
  tests: the field of the counter is named \<open>count\<close>, not after the column of the query.
\<close>

theorem create_dashboard_field_name_counterexample:
  "concat (map (\<lambda>l. widget_field_names (Layout_widget l))
        (concat (map Page_layout (Dashboard_pages (create_dashboard counter_variation_folder)))))
     = [''count''] \<and>
   ''count'' \<noteq> ''Something Else Than Count''"
  by (simp add: create_dashboard_eq glob_variation widget_field_names_def)


section \<open>Properties of \<open>_format_query\<close>\<close>

text \<open>
  Claim C4. The claim holds for a query that the parser rejects with \<open>ParseError\<close>: the
  query is returned unchanged. It fails for a query on which the parser raises
  \<open>TokenError\<close>: \<open>_format_query\<close> catches \<open>ParseError\<close> only, so it raises that exception
  instead of returning the text.
\<close>

theorem format_query_outcomes:
  "(parse query = Inl ParseError \<longrightarrow> format_query parse sql query = Inr query) \<and>
   (parse query = Inl TokenError \<longrightarrow> format_query parse sql query = Inl TokenError)"
  by (simp add: format_query_def)

theorem format_query_outcomes_witness:
  "strict_parser ''SELECT COUNT(* AS invalid_column'' = Inl ParseError \<and>
   format_query strict_parser (\<lambda>statement. statement) ''SELECT COUNT(* AS invalid_column'' =
     Inr ''SELECT COUNT(* AS invalid_column'' \<and>
   strict_parser unterminated_string_query = Inl TokenError \<and>
   format_query strict_parser (\<lambda>statement. statement) unterminated_string_query =
     Inl TokenError"
proof -
  have rejected: "strict_parser ''SELECT COUNT(* AS invalid_column'' = Inl ParseError"
    by (simp add: strict_parser_def)
  have unterminated: "strict_parser unterminated_string_query = Inl TokenError"
    by (simp add: strict_parser_def unterminated_string_query_def)
  from format_query_outcomes
         [of strict_parser "''SELECT COUNT(* AS invalid_column''" "\<lambda>statement. statement"]
       format_query_outcomes
         [of strict_parser unterminated_string_query "\<lambda>statement. statement"]
       rejected unterminated
  show ?thesis by simp
qed


section \<open>Properties of \<open>deploy_dashboard\<close>\<close>

text \<open>
  Claim C5. With both \<open>display_name\<close> and \<open>dashboard_id\<close> given, or with neither,
  \<open>deploy_dashboard\<close> raises \<open>ValueError\<close> and has made no network call. With exactly one
  of them it raises nothing: it makes exactly one call and returns the answer to it.
\<close>

theorem deploy_dashboard_identifier_check:
  "((display_name = None \<and> dashboard_id = None) \<or>
    (display_name \<noteq> None \<and> dashboard_id \<noteq> None) \<longrightarrow>
      deploy_dashboard ws serialize dashboard display_name dashboard_id =
        (Inl (ValueError ''Give either display_name or dashboard_id.''), [])) \<and>
   ((display_name = None) \<noteq> (dashboard_id = None) \<longrightarrow>
      (\<exists>call.
         deploy_dashboard ws serialize dashboard display_name dashboard_id =
           (Inr (ws call), [call])))"
  by (auto simp: deploy_dashboard_def Let_def split: option.splits)

theorem deploy_dashboard_identifier_check_witness:
  "deploy_dashboard (\<lambda>call. call) (\<lambda>d. ''{}'') (create_dashboard one_counter_folder)
     (Some ''Counter'') (Some ''01ee'') =
     (Inl (ValueError ''Give either display_name or dashboard_id.''), []) \<and>
   deploy_dashboard (\<lambda>call. call) (\<lambda>d. ''{}'') (create_dashboard one_counter_folder)
     None None =
     (Inl (ValueError ''Give either display_name or dashboard_id.''), []) \<and>
   (\<exists>call.
      deploy_dashboard (\<lambda>call. call) (\<lambda>d. ''{}'') (create_dashboard one_counter_folder)
        None (Some ''01ee'') = (Inr call, [call])) \<and>
   (\<exists>call.
      deploy_dashboard (\<lambda>call. call) (\<lambda>d. ''{}'') (create_dashboard one_counter_folder)
        (Some ''Counter'') None = (Inr call, [call]))"
  using
    deploy_dashboard_identifier_check
      [of "Some ''Counter''" "Some ''01ee''" "\<lambda>call. call" "\<lambda>d. ''{}''"
          "create_dashboard one_counter_folder"]
    deploy_dashboard_identifier_check
      [of None None "\<lambda>call. call" "\<lambda>d. ''{}''" "create_dashboard one_counter_folder"]
    deploy_dashboard_identifier_check
      [of None "Some ''01ee''" "\<lambda>call. call" "\<lambda>d. ''{}''"
          "create_dashboard one_counter_folder"]
    deploy_dashboard_identifier_check
      [of "Some ''Counter''" None "\<lambda>call. call" "\<lambda>d. ''{}''"
          "create_dashboard one_counter_folder"]
  by simp


section \<open>Properties of \<open>_replace_names\<close>\<close>

text \<open>
  Claim C3, as amended. A NamedQuery without a query is returned as it is, and the dict
  with it. For a NamedQuery that has a query, the dataset name of the query is looked up in
  the dict first. Then, when the name of the NamedQuery starts with \<open>dashboards/\<close>, the new
  name is that dataset name joined by underscores with the names of all fields of the
  query; the dict handed on to the nodes visited later maps the old name to the new one.
  Otherwise the name is looked up in the dict, which stays as it was.
\<close>

theorem replace_names_NamedQuery_rename:
  "(NamedQuery_query node = None \<longrightarrow>
      replace_names_NamedQuery node better_names = (node, better_names)) \<and>
   (\<forall>query new_name.
      NamedQuery_query node = Some query \<and>
      new_name = join ''_'' (get_name better_names (Query_dataset_name query) #
                            map Field_name (Query_fields query)) \<longrightarrow>
      (startswith (NamedQuery_name node) ''dashboards/'' \<longrightarrow>
         NamedQuery_name (fst (replace_names_NamedQuery node better_names)) = new_name \<and>
         snd (replace_names_NamedQuery node better_names) =
           better_names(NamedQuery_name node \<mapsto> new_name)) \<and>
      (\<not> startswith (NamedQuery_name node) ''dashboards/'' \<longrightarrow>
         NamedQuery_name (fst (replace_names_NamedQuery node better_names)) =
           get_name better_names (NamedQuery_name node) \<and>
         snd (replace_names_NamedQuery node better_names) = better_names) \<and>
      NamedQuery_query (fst (replace_names_NamedQuery node better_names)) =
        Some (query\<lparr>Query_dataset_name := get_name better_names (Query_dataset_name query)\<rparr>))"
  by (auto simp: replace_names_NamedQuery_def replace_names_Query_def Let_def get_name_def)

text \<open>
  The example of the specification: dataset name \<open>counter\<close>, one field \<open>count\<close>, a name in
  the pattern of the remote service and an empty dict give \<open>counter_count\<close>.
\<close>

theorem replace_names_NamedQuery_rename_witness:
  "startswith (NamedQuery_name remote_named_query) ''dashboards/'' \<and>
   NamedQuery_name (fst (replace_names_NamedQuery remote_named_query Map.empty)) =
     ''counter_count'' \<and>
   snd (replace_names_NamedQuery remote_named_query Map.empty) =
     [NamedQuery_name remote_named_query \<mapsto> ''counter_count'']"
proof -
  have q: "NamedQuery_query remote_named_query =
      Some \<lparr>Query_dataset_name = ''counter'',
            Query_fields = [\<lparr>Field_name = ''count'', Field_expression = ''`count`''\<rparr>],
            Query_disaggregated = True\<rparr>"
    by (simp add: remote_named_query_def)
  have p: "startswith (NamedQuery_name remote_named_query) ''dashboards/''"
    by (simp add: remote_named_query_def startswith_def)
  have n: "join ''_'' (get_name Map.empty ''counter'' # [''count'']) = ''counter_count''"
    by (simp add: get_name_def)
  from replace_names_NamedQuery_rename [of remote_named_query Map.empty] q p n
  show ?thesis by simp
qed

text \<open>
  The claim as stated fails for a NamedQuery without a query: its name \<open>q\<close> is kept although
  the dict maps \<open>q\<close> to \<open>better\<close>.
\<close>

theorem replace_names_NamedQuery_guard_counterexample:
  "NamedQuery_name (fst (replace_names_NamedQuery bare_named_query [''q'' \<mapsto> ''better''])) = ''q'' \<and>
   get_name [''q'' \<mapsto> ''better''] (NamedQuery_name bare_named_query) = ''better''"
  by (simp add: replace_names_NamedQuery_def bare_named_query_def get_name_def)


section \<open>Properties of \<open>_with_better_names\<close>\<close>

subsection \<open>Lists of nodes\<close>

lemma replace_names_list_inv:
  assumes "\<And>x m. x \<in> set xs \<Longrightarrow> I m \<Longrightarrow> R x (fst (f x m)) \<and> I (snd (f x m))"
    and "I m"
  shows "list_all2 R xs (fst (replace_names_list f xs m)) \<and>
         I (snd (replace_names_list f xs m))"
  using assms
proof (induction xs arbitrary: m)
  case Nil
  then show ?case by simp
next
  case (Cons x xs)
  from Cons.prems have head: "R x (fst (f x m))" "I (snd (f x m))"
    by simp_all
  from Cons.IH [of "snd (f x m)"] Cons.prems(1) head(2)
  have "list_all2 R xs (fst (replace_names_list f xs (snd (f x m)))) \<and>
        I (snd (replace_names_list f xs (snd (f x m))))"
    by simp
  with head show ?case
    by (simp add: split_beta)
qed

lemma replace_names_list_fix:
  assumes "\<And>x m. x \<in> set xs \<Longrightarrow> I m \<Longrightarrow> fst (f x m) = x \<and> I (snd (f x m))"
    and "I m"
  shows "fst (replace_names_list f xs m) = xs \<and> I (snd (replace_names_list f xs m))"
proof -
  have "list_all2 (\<lambda>x x'. x' = x) xs (fst (replace_names_list f xs m)) \<and>
      I (snd (replace_names_list f xs m))"
    using assms by (rule replace_names_list_inv)
  then show ?thesis
    by (simp add: list_all2_conv_all_nth list_eq_iff_nth_eq)
qed

lemma replace_names_list_same_dict:
  "(\<And>x m. snd (f x m) = m) \<Longrightarrow> snd (replace_names_list f xs m) = m"
  by (induction xs arbitrary: m) (simp_all add: split_beta)

subsection \<open>A second pass changes nothing on stable nodes\<close>

lemma get_name_identity: "identity_on_keys m \<Longrightarrow> get_name m k = k"
  by (auto simp: identity_on_keys_def get_name_def split: option.splits)

lemma identity_on_keys_update: "identity_on_keys m \<Longrightarrow> identity_on_keys (m(k \<mapsto> k))"
  by (simp add: identity_on_keys_def)

lemma replace_names_Dataset_fix:
  "identity_on_keys m \<Longrightarrow> replace_names_Dataset node m = (node, m)"
  by (simp add: replace_names_Dataset_def get_name_identity)

lemma replace_names_Query_fix:
  "identity_on_keys m \<Longrightarrow> replace_names_Query node m = (node, m)"
  by (simp add: replace_names_Query_def get_name_identity)

lemma replace_names_NamedQuery_fix:
  assumes "identity_on_keys m" "stable_NamedQuery node"
  shows "fst (replace_names_NamedQuery node m) = node \<and>
         identity_on_keys (snd (replace_names_NamedQuery node m))"
proof (cases "NamedQuery_query node")
  case None
  with assms show ?thesis
    by (simp add: replace_names_NamedQuery_def)
next
  case (Some query)
  show ?thesis
  proof (cases "generated (NamedQuery_name node)")
    case True
    with Some assms(2) have "NamedQuery_name node =
        join ''_'' (Query_dataset_name query # map Field_name (Query_fields query))"
      by (simp add: stable_NamedQuery_def)
    with True Some assms(1) show ?thesis
      by (simp add: replace_names_NamedQuery_def replace_names_Query_fix Let_def
            generated_def [symmetric] get_name_def identity_on_keys_update)
  next
    case False
    with Some assms(1) show ?thesis
      by (simp add: replace_names_NamedQuery_def replace_names_Query_fix
            generated_def [symmetric] get_name_identity)
  qed
qed

lemma replace_names_ControlFieldEncoding_fix:
  "identity_on_keys m \<Longrightarrow> replace_names_ControlFieldEncoding node m = (node, m)"
  by (simp add: replace_names_ControlFieldEncoding_def get_name_identity)

lemma replace_names_WidgetSpec_fix:
  assumes "identity_on_keys m"
  shows "replace_names_WidgetSpec node m = (node, m)"
proof (cases node)
  case (CounterSpec encodings)
  then show ?thesis by simp
next
  case (OtherSpec tag encodings)
  have "fst (replace_names_list replace_names_ControlFieldEncoding encodings m) = encodings \<and>
      snd (replace_names_list replace_names_ControlFieldEncoding encodings m) = m"
    using assms
    by (intro replace_names_list_fix [where I = "\<lambda>m'. m' = m"])
       (simp_all add: replace_names_ControlFieldEncoding_fix)
  with OtherSpec show ?thesis
    by (simp add: split_beta)
qed

lemma replace_names_Widget_fix:
  assumes "identity_on_keys m" "stable_Widget node"
  shows "fst (replace_names_Widget node m) = node \<and>
         identity_on_keys (snd (replace_names_Widget node m))"
proof -
  let ?queries = "replace_names_list replace_names_NamedQuery (Widget_queries node) m"
  have queries: "fst ?queries = Widget_queries node \<and> identity_on_keys (snd ?queries)"
    using assms
    by (intro replace_names_list_fix [where I = identity_on_keys] replace_names_NamedQuery_fix)
       (auto simp: stable_Widget_def list_all_iff)
  show ?thesis
  proof (cases "Widget_spec node")
    case None
    with queries show ?thesis
      by (simp add: replace_names_Widget_def split_beta)
  next
    case (Some spec)
    with queries assms(2) show ?thesis
      by (cases "widgetType spec")
         (simp_all add: replace_names_Widget_def split_beta replace_names_WidgetSpec_fix
            stable_Widget_def)
  qed
qed

lemma replace_names_Layout_fix:
  assumes "identity_on_keys m" "stable_Widget (Layout_widget node)"
  shows "fst (replace_names_Layout node m) = node \<and>
         identity_on_keys (snd (replace_names_Layout node m))"
  using replace_names_Widget_fix [OF assms]
  by (simp add: replace_names_Layout_def split_beta)

lemma replace_names_Page_fix:
  assumes "identity_on_keys m" "stable_Page node"
  shows "fst (replace_names_Page node m) = node \<and>
         identity_on_keys (snd (replace_names_Page node m))"
proof -
  let ?layout = "replace_names_list replace_names_Layout (Page_layout node) m"
  have "fst ?layout = Page_layout node \<and> identity_on_keys (snd ?layout)"
    using assms
    by (intro replace_names_list_fix [where I = identity_on_keys] replace_names_Layout_fix)
       (auto simp: stable_Page_def list_all_iff)
  then show ?thesis
    by (simp add: replace_names_Page_def split_beta get_name_identity)
qed

lemma replace_names_Dashboard_fix:
  assumes "identity_on_keys m" "list_all stable_Page (Dashboard_pages node)"
  shows "fst (replace_names_Dashboard node m) = node"
proof -
  let ?datasets = "replace_names_list replace_names_Dataset (Dashboard_datasets node) m"
  have datasets: "fst ?datasets = Dashboard_datasets node \<and> snd ?datasets = m"
    using assms(1)
    by (intro replace_names_list_fix [where I = "\<lambda>m'. m' = m"])
       (simp_all add: replace_names_Dataset_fix)
  have "fst (replace_names_list replace_names_Page (Dashboard_pages node) m) =
        Dashboard_pages node \<and>
      identity_on_keys (snd (replace_names_list replace_names_Page (Dashboard_pages node) m))"
    using assms
    by (intro replace_names_list_fix [where I = identity_on_keys] replace_names_Page_fix)
       (auto simp: list_all_iff)
  with datasets show ?thesis
    by (simp add: replace_names_Dashboard_def split_beta)
qed

subsection \<open>The first pass on a plain dashboard\<close>

lemma agree_refl: "agree m m"
  by (simp add: agree_def)

lemma agree_update: "agree m0 m \<Longrightarrow> generated k \<Longrightarrow> agree m0 (m(k \<mapsto> v))"
  by (auto simp: agree_def)

lemma get_name_agree: "agree m0 m \<Longrightarrow> \<not> generated k \<Longrightarrow> get_name m k = get_name m0 k"
  by (simp add: agree_def get_name_def)

lemma get_name_clean: "clean m0 \<Longrightarrow> \<not> generated k \<Longrightarrow> \<not> generated (get_name m0 k)"
  by (auto simp: clean_def get_name_def split: option.splits)

lemma replace_names_NamedQuery_pass:
  assumes "clean m0" "agree m0 m"
  shows "stable_NamedQuery (fst (replace_names_NamedQuery node m)) \<and>
         agree m0 (snd (replace_names_NamedQuery node m))"
proof (cases "NamedQuery_query node")
  case None
  with assms show ?thesis
    by (simp add: replace_names_NamedQuery_def stable_NamedQuery_def)
next
  case (Some query)
  show ?thesis
  proof (cases "generated (NamedQuery_name node)")
    case True
    with Some assms show ?thesis
      by (simp add: replace_names_NamedQuery_def replace_names_Query_def Let_def
            stable_NamedQuery_def generated_def [symmetric] get_name_def agree_update)
  next
    case False
    with Some assms show ?thesis
      by (simp add: replace_names_NamedQuery_def replace_names_Query_def Let_def
            stable_NamedQuery_def generated_def [symmetric] get_name_agree get_name_clean)
  qed
qed

lemma replace_names_WidgetSpec_dict: "snd (replace_names_WidgetSpec node m) = m"
  by (cases node)
     (simp_all add: split_beta replace_names_list_same_dict replace_names_ControlFieldEncoding_def)

lemma replace_names_WidgetSpec_tag: "widgetType (fst (replace_names_WidgetSpec node m)) = widgetType node"
  by (cases node) (simp_all add: split_beta)

lemma replace_names_Widget_pass:
  assumes "clean m0" "agree m0 m"
  shows "stable_Widget (fst (replace_names_Widget node m)) \<and>
         agree m0 (snd (replace_names_Widget node m))"
proof -
  have queries:
    "list_all2 (\<lambda>x. stable_NamedQuery) (Widget_queries node)
       (fst (replace_names_list replace_names_NamedQuery (Widget_queries node) m)) \<and>
     agree m0 (snd (replace_names_list replace_names_NamedQuery (Widget_queries node) m))"
    using assms
    by (intro replace_names_list_inv [where I = "agree m0"] replace_names_NamedQuery_pass)
  then have stable: "list_all stable_NamedQuery
      (fst (replace_names_list replace_names_NamedQuery (Widget_queries node) m))"
    by (auto simp: list_all2_conv_all_nth list_all_length)
  show ?thesis
  proof (cases "Widget_spec node")
    case None
    with queries stable show ?thesis
      by (simp add: replace_names_Widget_def split_beta stable_Widget_def)
  next
    case (Some spec)
    with queries stable show ?thesis
      by (cases "widgetType spec")
         (simp_all add: replace_names_Widget_def split_beta stable_Widget_def
            replace_names_WidgetSpec_dict replace_names_WidgetSpec_tag)
  qed
qed

lemma replace_names_Layout_pass:
  assumes "clean m0" "agree m0 m"
  shows "stable_Widget (Layout_widget (fst (replace_names_Layout node m))) \<and>
         agree m0 (snd (replace_names_Layout node m))"
  using replace_names_Widget_pass [OF assms]
  by (simp add: replace_names_Layout_def split_beta)

lemma replace_names_Page_pass:
  assumes "clean m0" "agree m0 m" "plain_Page node"
  shows "(stable_Page (fst (replace_names_Page node m)) \<and>
          Page_name (fst (replace_names_Page node m)) = get_name m0 (Page_name node) \<and>
          Page_display_name (fst (replace_names_Page node m)) = Page_display_name node) \<and>
         agree m0 (snd (replace_names_Page node m))"
proof -
  have layout:
    "list_all2 (\<lambda>x layout. stable_Widget (Layout_widget layout)) (Page_layout node)
       (fst (replace_names_list replace_names_Layout (Page_layout node) m)) \<and>
     agree m0 (snd (replace_names_list replace_names_Layout (Page_layout node) m))"
    using assms
    by (intro replace_names_list_inv [where I = "agree m0"] replace_names_Layout_pass)
  then have "list_all (\<lambda>layout. stable_Widget (Layout_widget layout))
      (fst (replace_names_list replace_names_Layout (Page_layout node) m))"
    by (auto simp: list_all2_conv_all_nth list_all_length)
  moreover from assms have "\<not> generated (Page_name node)"
    by (simp add: plain_Page_def)
  ultimately show ?thesis
    using layout
    by (simp add: replace_names_Page_def split_beta stable_Page_def get_name_agree)
qed

lemma replace_names_Dataset_pass:
  "(Dataset_name (fst (replace_names_Dataset node m0)) = get_name m0 (Dataset_name node) \<and>
    Dataset_display_name (fst (replace_names_Dataset node m0)) = Dataset_display_name node) \<and>
   snd (replace_names_Dataset node m0) = m0"
  by (simp add: replace_names_Dataset_def)

subsection \<open>The dict of the second pass\<close>

lemma fill_names_eq:
  "page_names pages (dataset_names datasets m) =
   fill_names (map (\<lambda>d. (Dataset_name d, Dataset_display_name d)) datasets @
               map (\<lambda>p. (Page_name p, Page_display_name p)) pages) m"
proof (induction datasets arbitrary: m)
  case Nil
  show ?case
    by (induction pages arbitrary: m) (simp_all split: option.splits)
next
  case (Cons dataset datasets)
  then show ?case
    by (simp split: option.splits)
qed

lemma fill_names_other: "name \<notin> shown_names entries \<Longrightarrow> fill_names entries m name = m name"
  by (induction entries m rule: fill_names.induct) (auto simp: shown_names_def)

lemma fill_names_source:
  "fill_names entries m k = Some v \<Longrightarrow> m k = Some v \<or> (k, Some v) \<in> set entries"
  by (induction entries m rule: fill_names.induct) (auto split: if_splits)

lemma shown_names_simps:
  "shown_names [] = {}"
  "shown_names ((name, None) # entries) = shown_names entries"
  "shown_names ((name, Some display_name) # entries) = insert name (shown_names entries)"
  by (auto simp: shown_names_def)

lemma settled_fill_names: "settled (get_name (fill_names entries m)) entries"
proof (induction entries arbitrary: m)
  case Nil
  show ?case by simp
next
  case (Cons entry entries)
  obtain name shown where entry: "entry = (name, shown)"
    by (cases entry)
  show ?case
  proof (cases shown)
    case None
    with entry Cons.IH [of m] show ?thesis by simp
  next
    case (Some display_name)
    let ?m = "fill_names entries (m(name \<mapsto> display_name))"
    have tail: "settled (get_name ?m) entries"
      by (rule Cons.IH)
    have "get_name ?m name = display_name \<or> get_name ?m name \<in> get_name ?m ` shown_names entries"
    proof (cases "name \<in> shown_names entries")
      case True
      then show ?thesis by blast
    next
      case False
      then have "?m name = Some display_name"
        by (simp add: fill_names_other)
      then show ?thesis by (simp add: get_name_def)
    qed
    with tail entry Some show ?thesis by simp
  qed
qed

lemma fill_names_renamed:
  assumes "settled f entries"
    and "\<And>k v. m k = Some v \<Longrightarrow> v = k \<or> k \<in> f ` shown_names entries"
  shows "identity_on_keys
           (fill_names (map (\<lambda>(name, display_name). (f name, display_name)) entries) m)"
  using assms
proof (induction entries arbitrary: m)
  case Nil
  then show ?case
    by (auto simp: identity_on_keys_def shown_names_simps)
next
  case (Cons entry entries)
  obtain name shown where entry: "entry = (name, shown)"
    by (cases entry)
  show ?case
  proof (cases shown)
    case None
    with entry Cons.prems have "settled f entries"
      and "\<And>k v. m k = Some v \<Longrightarrow> v = k \<or> k \<in> f ` shown_names entries"
      by (simp_all add: shown_names_simps)
    then have "identity_on_keys
        (fill_names (map (\<lambda>(name, display_name). (f name, display_name)) entries) m)"
      by (rule Cons.IH)
    with entry None show ?thesis by simp
  next
    case (Some display_name)
    with entry Cons.prems(1) have head: "f name = display_name \<or> f name \<in> f ` shown_names entries"
      and tail: "settled f entries"
      by simp_all
    have "identity_on_keys
        (fill_names (map (\<lambda>(name, display_name). (f name, display_name)) entries)
           (m(f name \<mapsto> display_name)))"
    proof (rule Cons.IH [OF tail])
      fix k v
      assume upd: "(m(f name \<mapsto> display_name)) k = Some v"
      show "v = k \<or> k \<in> f ` shown_names entries"
      proof (cases "k = f name")
        case True
        with upd head show ?thesis by auto
      next
        case False
        with upd have "m k = Some v" by simp
        then have "v = k \<or> k \<in> f ` shown_names (entry # entries)"
          by (rule Cons.prems(2))
        with False entry Some show ?thesis
          by (auto simp: shown_names_simps)
      qed
    qed
    with entry Some show ?thesis by simp
  qed
qed

lemma identity_on_keys_second_pass:
  "identity_on_keys
     (fill_names (map (\<lambda>(name, display_name). (get_name (fill_names entries Map.empty) name,
                                                display_name)) entries) Map.empty)"
  by (rule fill_names_renamed) (simp_all add: settled_fill_names)

lemma clean_fill_names:
  assumes "\<And>name display_name. (name, Some display_name) \<in> set entries \<Longrightarrow> \<not> generated display_name"
  shows "clean (fill_names entries Map.empty)"
  unfolding clean_def
proof (intro allI impI)
  fix k v
  assume "\<not> generated k \<and> fill_names entries Map.empty k = Some v"
  then have "(k, Some v) \<in> set entries"
    using fill_names_source [of entries Map.empty k v] by simp
  then show "\<not> generated v" by (rule assms)
qed

lemma clean_initial:
  assumes "plain_Dashboard dashboard"
  shows "clean (page_names (Dashboard_pages dashboard)
                  (dataset_names (Dashboard_datasets dashboard) Map.empty))"
  unfolding fill_names_eq
proof (rule clean_fill_names)
  fix name display_name
  assume "(name, Some display_name) \<in>
      set (map (\<lambda>d. (Dataset_name d, Dataset_display_name d)) (Dashboard_datasets dashboard) @
           map (\<lambda>p. (Page_name p, Page_display_name p)) (Dashboard_pages dashboard))"
  then consider d where "d \<in> set (Dashboard_datasets dashboard)"
      "Dataset_display_name d = Some display_name"
    | p where "p \<in> set (Dashboard_pages dashboard)" "Page_display_name p = Some display_name"
    by auto
  then show "\<not> generated display_name"
  proof cases
    case 1
    with assms have "plain_Dataset d"
      by (simp add: plain_Dashboard_def list_all_iff)
    with 1 show ?thesis by (simp add: plain_Dataset_def)
  next
    case 2
    with assms have "plain_Page p"
      by (simp add: plain_Dashboard_def list_all_iff)
    with 2 show ?thesis by (simp add: plain_Page_def)
  qed
qed

lemma list_all2_map_eq:
  "list_all2 (\<lambda>x y. g y = h x) xs ys \<Longrightarrow> map g ys = map h xs"
  by (induction xs ys rule: list_all2_induct) simp_all

lemma replace_names_Dashboard_pass:
  assumes "clean m0" "plain_Dashboard node"
  shows "list_all stable_Page (Dashboard_pages (fst (replace_names_Dashboard node m0)))"
    and "map (\<lambda>d. (Dataset_name d, Dataset_display_name d))
           (Dashboard_datasets (fst (replace_names_Dashboard node m0))) =
         map (\<lambda>d. (get_name m0 (Dataset_name d), Dataset_display_name d))
           (Dashboard_datasets node)"
    and "map (\<lambda>p. (Page_name p, Page_display_name p))
           (Dashboard_pages (fst (replace_names_Dashboard node m0))) =
         map (\<lambda>p. (get_name m0 (Page_name p), Page_display_name p)) (Dashboard_pages node)"
proof -
  let ?datasets = "replace_names_list replace_names_Dataset (Dashboard_datasets node) m0"
  let ?pages = "replace_names_list replace_names_Page (Dashboard_pages node) (snd ?datasets)"
  have datasets:
    "list_all2 (\<lambda>d d'. Dataset_name d' = get_name m0 (Dataset_name d) \<and>
                       Dataset_display_name d' = Dataset_display_name d)
       (Dashboard_datasets node) (fst ?datasets) \<and>
     snd ?datasets = m0"
    by (intro replace_names_list_inv [where I = "\<lambda>m. m = m0"])
       (simp_all add: replace_names_Dataset_pass)
  then have pages:
    "list_all2 (\<lambda>p p'. stable_Page p' \<and> Page_name p' = get_name m0 (Page_name p) \<and>
                       Page_display_name p' = Page_display_name p)
       (Dashboard_pages node) (fst ?pages) \<and>
     agree m0 (snd ?pages)"
    using assms
    by (intro replace_names_list_inv [where I = "agree m0"] replace_names_Page_pass)
       (auto simp: plain_Dashboard_def list_all_iff agree_refl)
  have result: "Dashboard_datasets (fst (replace_names_Dashboard node m0)) = fst ?datasets"
    "Dashboard_pages (fst (replace_names_Dashboard node m0)) = fst ?pages"
    by (simp_all add: replace_names_Dashboard_def split_beta)
  from pages show "list_all stable_Page (Dashboard_pages (fst (replace_names_Dashboard node m0)))"
    unfolding result by (auto simp: list_all2_conv_all_nth list_all_length)
  from datasets have "list_all2
      (\<lambda>d d'. (Dataset_name d', Dataset_display_name d') =
               (get_name m0 (Dataset_name d), Dataset_display_name d))
      (Dashboard_datasets node) (fst ?datasets)"
    by (auto elim: list_all2_mono)
  then show "map (\<lambda>d. (Dataset_name d, Dataset_display_name d))
           (Dashboard_datasets (fst (replace_names_Dashboard node m0))) =
         map (\<lambda>d. (get_name m0 (Dataset_name d), Dataset_display_name d))
           (Dashboard_datasets node)"
    unfolding result by (rule list_all2_map_eq)
  from pages have "list_all2
      (\<lambda>p p'. (Page_name p', Page_display_name p') =
               (get_name m0 (Page_name p), Page_display_name p))
      (Dashboard_pages node) (fst ?pages)"
    by (auto elim: list_all2_mono)
  then show "map (\<lambda>p. (Page_name p, Page_display_name p))
           (Dashboard_pages (fst (replace_names_Dashboard node m0))) =
         map (\<lambda>p. (get_name m0 (Page_name p), Page_display_name p)) (Dashboard_pages node)"
    unfolding result by (rule list_all2_map_eq)
qed

subsection \<open>Idempotence\<close>

text \<open>
  Claim C10, as amended. Name normalization is idempotent on every plain dashboard, that
  is, whenever no display name of a Dataset or a Page and no name of a Page starts with
  \<open>dashboards/\<close>: a second pass of \<open>_with_better_names\<close> returns what the first pass
  returned. The names of datasets, named queries and widgets, and the names by which
  queries and control encodings refer to them, are arbitrary.
\<close>

theorem with_better_names_idempotent:
  assumes "plain_Dashboard dashboard"
  shows "with_better_names (with_better_names dashboard) = with_better_names dashboard"
proof -
  let ?entries = "map (\<lambda>d. (Dataset_name d, Dataset_display_name d)) (Dashboard_datasets dashboard) @
      map (\<lambda>p. (Page_name p, Page_display_name p)) (Dashboard_pages dashboard)"
  let ?m0 = "fill_names ?entries Map.empty"
  let ?once = "fst (replace_names_Dashboard dashboard ?m0)"
  have once: "with_better_names dashboard = ?once"
    by (simp add: with_better_names_def fill_names_eq)
  from assms have clean: "clean ?m0"
    using clean_initial [of dashboard] by (simp add: fill_names_eq)
  note pass = replace_names_Dashboard_pass [OF clean assms]
  let ?m1 = "fill_names
      (map (\<lambda>d. (Dataset_name d, Dataset_display_name d)) (Dashboard_datasets ?once) @
       map (\<lambda>p. (Page_name p, Page_display_name p)) (Dashboard_pages ?once)) Map.empty"
  have "?m1 = fill_names
      (map (\<lambda>(name, display_name). (get_name ?m0 name, display_name)) ?entries) Map.empty"
    by (simp only: pass(2,3)) (simp add: comp_def)
  then have "identity_on_keys ?m1"
    by (simp only: identity_on_keys_second_pass)
  then have "fst (replace_names_Dashboard ?once ?m1) = ?once"
    using pass(1) by (rule replace_names_Dashboard_fix)
  then have "with_better_names ?once = ?once"
    by (simp add: with_better_names_def fill_names_eq)
  with once show ?thesis by simp
qed

lemma with_better_names_exported:
  "with_better_names exported_dashboard =
     \<lparr>Dashboard_datasets =
        [\<lparr>Dataset_name = ''counter'', Dataset_display_name = Some ''counter'',
          Dataset_query = ''SELECT 10 AS count''\<rparr>],
      Dashboard_pages =
        [\<lparr>Page_name = ''Counters'', Page_display_name = Some ''Counters'',
          Page_layout =
            [\<lparr>Layout_widget =
                \<lparr>Widget_name = ''filter-single-select'',
                 Widget_queries =
                   [\<lparr>NamedQuery_name = ''counter_count'',
                     NamedQuery_query =
                       Some \<lparr>Query_dataset_name = ''counter'',
                             Query_fields =
                               [\<lparr>Field_name = ''count'', Field_expression = ''`count`''\<rparr>],
                             Query_disaggregated = True\<rparr>\<rparr>],
                 Widget_spec =
                   Some (OtherSpec (Some ''filter-single-select'')
                     [\<lparr>ControlFieldEncoding_field_name = ''count'',
                       ControlFieldEncoding_query_name = ''counter_count'',
                       ControlFieldEncoding_display_name = ''count''\<rparr>])\<rparr>,
               Layout_position = default_position\<rparr>]\<rparr>]\<rparr>"
  by (simp add: with_better_names_def exported_dashboard_def replace_names_Dashboard_def
        replace_names_Dataset_def replace_names_Page_def replace_names_Layout_def
        replace_names_Widget_def replace_names_NamedQuery_def replace_names_Query_def
        replace_names_ControlFieldEncoding_def get_name_def startswith_def Let_def)

theorem with_better_names_idempotent_witness:
  "plain_Dashboard exported_dashboard \<and>
   with_better_names (with_better_names exported_dashboard) =
     with_better_names exported_dashboard \<and>
   with_better_names exported_dashboard \<noteq> exported_dashboard"
proof -
  have plain: "plain_Dashboard exported_dashboard"
    by (simp add: plain_Dashboard_def plain_Dataset_def plain_Page_def generated_def
          startswith_def exported_dashboard_def)
  have "with_better_names exported_dashboard \<noteq> exported_dashboard"
    by (simp add: with_better_names_exported) (simp add: exported_dashboard_def)
  with plain with_better_names_idempotent [OF plain] show ?thesis by simp
qed

text \<open>
  The claim as stated fails on a dataset whose display name starts with \<open>dashboards/\<close>: the
  first pass gives that name to the NamedQuery named after the dataset, and the second
  pass takes it for a name of the remote service and replaces it.
\<close>

theorem with_better_names_twice_counterexample:
  "with_better_names (with_better_names generated_display_name_dashboard) \<noteq>
   with_better_names generated_display_name_dashboard"
proof -
  have once: "with_better_names generated_display_name_dashboard =
     \<lparr>Dashboard_datasets =
        [\<lparr>Dataset_name = ''dashboards/q'', Dataset_display_name = Some ''dashboards/q'',
          Dataset_query = ''SELECT 1 AS count''\<rparr>],
      Dashboard_pages =
        [\<lparr>Page_name = ''p'', Page_display_name = None,
          Page_layout =
            [\<lparr>Layout_widget =
                \<lparr>Widget_name = ''w'',
                 Widget_queries =
                   [\<lparr>NamedQuery_name = ''dashboards/q'',
                     NamedQuery_query =
                       Some \<lparr>Query_dataset_name = ''dashboards/q'',
                             Query_fields =
                               [\<lparr>Field_name = ''count'', Field_expression = ''`count`''\<rparr>],
                             Query_disaggregated = True\<rparr>\<rparr>],
                 Widget_spec = None\<rparr>,
               Layout_position = default_position\<rparr>]\<rparr>]\<rparr>"
    by (simp add: with_better_names_def generated_display_name_dashboard_def
          replace_names_Dashboard_def replace_names_Dataset_def replace_names_Page_def
          replace_names_Layout_def replace_names_Widget_def replace_names_NamedQuery_def
          replace_names_Query_def get_name_def startswith_def Let_def)
  show ?thesis
    unfolding once
    by (simp add: with_better_names_def replace_names_Dashboard_def replace_names_Dataset_def
          replace_names_Page_def replace_names_Layout_def replace_names_Widget_def
          replace_names_NamedQuery_def replace_names_Query_def get_name_def startswith_def
          Let_def)
qed


section \<open>Properties of the round trip\<close>

subsection \<open>Normalizing a remote copy of a built dashboard\<close>











subsection \<open>Deploying and fetching\<close>



subsection \<open>The round trip\<close>





end
